theory Spec2Isabelle
  imports Main "HOL-Library.Word"
begin

section \<open>Wire values and parcels\<close>

text \<open>
  The file under verification is \<^verbatim>\<open>camera/ICameraService.cpp\<close>: the client-side proxy
  \<^verbatim>\<open>BpCameraService\<close>, the service-side stub \<^verbatim>\<open>BnCameraService::onTransact\<close> and the
  file-local helper \<^verbatim>\<open>readExceptionCode\<close>.

  \<^verbatim>\<open>int32_t\<close>, \<^verbatim>\<open>int\<close>, \<^verbatim>\<open>status_t\<close> and \<^verbatim>\<open>uint32_t\<close> are 32-bit words; a signed constant
  such as \<^verbatim>\<open>-3\<close> is the word \<open>- 3\<close>.
\<close>

type_synonym int32 = "32 word"
type_synonym status_t = "32 word"

text \<open>
  A strong pointer \<^verbatim>\<open>sp<T>\<close> to an \<^verbatim>\<open>IBinder\<close>-backed object is either null or refers to an
  object, identified here by a handle. \<^verbatim>\<open>interface_cast\<close> wraps an \<^verbatim>\<open>IBinder\<close> into its
  interface without changing which object it is, and maps null to null.
\<close>

type_synonym ibinder = nat
type_synonym sp = "ibinder option"

definition interface_cast :: "sp \<Rightarrow> sp" where
  "interface_cast b = b"

text \<open>
  \<^verbatim>\<open>Parcel\<close> belongs to libbinder, not to this file. It is modelled as the sequence of
  fields written so far together with a read cursor. A write appends one field; a read
  returns the field under the cursor and advances. A read that does not find a field of
  the requested kind under the cursor returns the kind's default (0, the empty string,
  null) and leaves the cursor where it is, as the \<^verbatim>\<open>Parcel\<close> readers do on a parcel that
  is too short.
\<close>

datatype field =
    InterfaceToken string
  | Int32 int32
  | String16 string
  | StrongBinder sp

record parcel =
  content :: "field list"
  cursor :: nat

definition emptyParcel :: parcel where
  "emptyParcel = \<lparr>content = [], cursor = 0\<rparr>"

definition write_field :: "field \<Rightarrow> parcel \<Rightarrow> parcel" where
  "write_field f p = p\<lparr>content := content p @ [f]\<rparr>"

definition peek :: "parcel \<Rightarrow> field option" where
  "peek p = (if cursor p < length (content p) then Some (content p ! cursor p) else None)"

definition advance :: "parcel \<Rightarrow> parcel" where
  "advance p = p\<lparr>cursor := Suc (cursor p)\<rparr>"

definition writeInterfaceToken :: "string \<Rightarrow> parcel \<Rightarrow> parcel" where
  "writeInterfaceToken d p = write_field (InterfaceToken d) p"

definition writeInt32 :: "int32 \<Rightarrow> parcel \<Rightarrow> parcel" where
  "writeInt32 v p = write_field (Int32 v) p"

definition writeString16 :: "string \<Rightarrow> parcel \<Rightarrow> parcel" where
  "writeString16 s p = write_field (String16 s) p"

definition writeStrongBinder :: "sp \<Rightarrow> parcel \<Rightarrow> parcel" where
  "writeStrongBinder b p = write_field (StrongBinder b) p"

definition writeNoException :: "parcel \<Rightarrow> parcel" where
  "writeNoException p = writeInt32 0 p"

definition readInt32 :: "parcel \<Rightarrow> int32 \<times> parcel" where
  "readInt32 p = (case peek p of Some (Int32 v) \<Rightarrow> (v, advance p) | _ \<Rightarrow> (0, p))"

definition readString16 :: "parcel \<Rightarrow> string \<times> parcel" where
  "readString16 p = (case peek p of Some (String16 s) \<Rightarrow> (s, advance p) | _ \<Rightarrow> ([], p))"

definition readStrongBinder :: "parcel \<Rightarrow> sp \<times> parcel" where
  "readStrongBinder p =
     (case peek p of Some (StrongBinder b) \<Rightarrow> (b, advance p) | _ \<Rightarrow> (None, p))"

text \<open>
  \<^verbatim>\<open>IMPLEMENT_META_INTERFACE(CameraService, "android.hardware.ICameraService")\<close> fixes the
  interface descriptor.
\<close>

definition getInterfaceDescriptor :: string where
  "getInterfaceDescriptor = ''android.hardware.ICameraService''"

text \<open>
  \<^verbatim>\<open>Parcel::checkInterface\<close>, used by \<^verbatim>\<open>CHECK_INTERFACE\<close>: reads the leading token and compares
  it with the descriptor.
\<close>

definition checkInterface :: "parcel \<Rightarrow> bool \<times> parcel" where
  "checkInterface p =
     (case peek p of
        Some (InterfaceToken d) \<Rightarrow> (d = getInterfaceDescriptor, advance p)
      | _ \<Rightarrow> (False, p))"

section \<open>Constants\<close>

text \<open>The anonymous enum of exception codes at the top of the file.\<close>

definition EX_SECURITY :: int32 where "EX_SECURITY = - 1"
definition EX_BAD_PARCELABLE :: int32 where "EX_BAD_PARCELABLE = - 2"
definition EX_ILLEGAL_ARGUMENT :: int32 where "EX_ILLEGAL_ARGUMENT = - 3"
definition EX_NULL_POINTER :: int32 where "EX_NULL_POINTER = - 4"
definition EX_ILLEGAL_STATE :: int32 where "EX_ILLEGAL_STATE = - 5"
definition EX_HAS_REPLY_HEADER :: int32 where "EX_HAS_REPLY_HEADER = - 128"

text \<open>
  \<^verbatim>\<open>Parcel::readExceptionCode\<close> is libbinder's; its body is not among the sources. It reads
  the reply's leading 32-bit code. The comment in \<^verbatim>\<open>readExceptionCode\<close> below records that
  the library itself handles \<^verbatim>\<open>EX_HAS_REPLY_HEADER\<close>: that code announces a reply header and
  is no outcome. The library then reads the header's length, which counts bytes from the
  length word on, moves the cursor past the header and returns 0. The model takes the
  header to be a run of 32-bit words, so that a length of \<open>n\<close> bytes is \<open>n div 4\<close> fields.
\<close>

definition Parcel_readExceptionCode :: "parcel \<Rightarrow> int32 \<times> parcel" where
  "Parcel_readExceptionCode p =
     (let (exception_code, p1) = readInt32 p in
      if exception_code = EX_HAS_REPLY_HEADER
      then (let header_start = cursor p1;
                (header_size, p2) = readInt32 p1
            in (0, p2\<lparr>cursor := header_start + nat (sint header_size) div 4\<rparr>))
      else (exception_code, p1))"

text \<open>
  Status codes of \<^verbatim>\<open>utils/Errors.h\<close> and \<^verbatim>\<open>errno.h\<close> (Linux): \<^verbatim>\<open>NO_ERROR = 0\<close>,
  \<^verbatim>\<open>PERMISSION_DENIED = -EPERM\<close>, \<^verbatim>\<open>UNKNOWN_TRANSACTION = -EBADMSG\<close>, \<^verbatim>\<open>EPROTO = 71\<close>.
\<close>

definition NO_ERROR :: status_t where "NO_ERROR = 0"
definition PERMISSION_DENIED :: status_t where "PERMISSION_DENIED = - 1"
definition UNKNOWN_TRANSACTION :: status_t where "UNKNOWN_TRANSACTION = - 74"
definition EPROTO :: status_t where "EPROTO = 71"

text \<open>
  Modelled from the spec: the opcode enum of \<^verbatim>\<open>BnCameraService\<close> is declared in
  \<^verbatim>\<open>camera/ICameraService.h\<close>, which is not among the sources. The operation table of the
  spec numbers the seven operations 1 to 7 in the order of the \<^verbatim>\<open>switch\<close>.
\<close>

definition GET_NUMBER_OF_CAMERAS :: "32 word" where "GET_NUMBER_OF_CAMERAS = 1"
definition GET_CAMERA_INFO :: "32 word" where "GET_CAMERA_INFO = 2"
definition CONNECT :: "32 word" where "CONNECT = 3"
definition CONNECT_PRO :: "32 word" where "CONNECT_PRO = 4"
definition CONNECT_DEVICE :: "32 word" where "CONNECT_DEVICE = 5"
definition ADD_LISTENER :: "32 word" where "ADD_LISTENER = 6"
definition REMOVE_LISTENER :: "32 word" where "REMOVE_LISTENER = 7"

definition recognized :: "32 word list" where
  "recognized = [GET_NUMBER_OF_CAMERAS, GET_CAMERA_INFO, CONNECT, CONNECT_PRO,
                 CONNECT_DEVICE, ADD_LISTENER, REMOVE_LISTENER]"

definition connect_codes :: "32 word list" where
  "connect_codes = [CONNECT, CONNECT_PRO, CONNECT_DEVICE]"

section \<open>The exception protocol: readExceptionCode\<close>

text \<open>
  The \<^verbatim>\<open>switch\<close> of \<^verbatim>\<open>readExceptionCode\<close>, which picks the message for a non-zero code.
  The cases are those of the source, in its order; there is none for
  \<^verbatim>\<open>EX_ILLEGAL_ARGUMENT\<close>.
\<close>

definition errorMsg :: "int32 \<Rightarrow> string" where
  "errorMsg exceptionCode =
     (if exceptionCode = EX_SECURITY then ''Security''
      else if exceptionCode = EX_BAD_PARCELABLE then ''BadParcelable''
      else if exceptionCode = EX_NULL_POINTER then ''NullPointer''
      else if exceptionCode = EX_ILLEGAL_STATE then ''IllegalState''
      else if exceptionCode = EX_HAS_REPLY_HEADER then ''HasReplyHeader''
      else ''Unknown'')"

text \<open>
  \<^verbatim>\<open>static bool readExceptionCode(Parcel& reply)\<close>: the boolean it returns, the line it
  logs with \<^verbatim>\<open>ALOGE\<close> (message and code) when the code is non-zero, and the reply with its
  cursor moved.
\<close>

record exc_read =
  failed :: bool
  logged :: "(string \<times> int32) option"
  rest :: parcel

definition readExceptionCode :: "parcel \<Rightarrow> exc_read" where
  "readExceptionCode reply =
     (let (exceptionCode, reply1) = Parcel_readExceptionCode reply in
      if exceptionCode \<noteq> 0
      then \<lparr>failed = True, logged = Some (errorMsg exceptionCode, exceptionCode), rest = reply1\<rparr>
      else \<lparr>failed = False, logged = None, rest = reply1\<rparr>)"

section \<open>References on the wire\<close>

text \<open>
  Modelled from the spec: \<^verbatim>\<open>asBinder()\<close> is a member function of libbinder's
  \<^verbatim>\<open>IInterface\<close>; its body is not among the sources. The spec makes the encoding of a
  capability reference a primitive of the wire codec, which always yields a field: the
  stub is to "write ExceptionOutcome = None, then the operation's result fields", and a
  business outcome is "a result field", never an outcome code; a null reference is an
  ordinary value of a call. So \<^verbatim>\<open>p->asBinder()\<close> is the handle of the object \<^verbatim>\<open>p\<close> refers
  to, and null when \<^verbatim>\<open>p\<close> is null: the member function tests \<^verbatim>\<open>this\<close> before it goes on.
\<close>

definition asBinder :: "sp \<Rightarrow> sp" where
  "asBinder p = (case p of None \<Rightarrow> None | Some b \<Rightarrow> Some b)"

section \<open>The call proxy: BpCameraService\<close>

text \<open>
  \<^verbatim>\<open>remote()->transact(code, data, &reply)\<close> is the transport: given the opcode and the call
  envelope it fills in the reply. The proxy ignores the status \<^verbatim>\<open>transact\<close> returns, so the
  transport is a function from opcode and envelope to the reply parcel.

  Each proxy method returns, besides its C++ return value \<open>ret\<close>, what it did: the
  opcode and envelope it handed to the transport (\<open>sent\<close>), the reply as it leaves it, with
  the cursor after the last field read (\<open>reply_left\<close>), and the line logged by
  \<^verbatim>\<open>readExceptionCode\<close> (\<open>errlog\<close>).
\<close>

type_synonym transport = "32 word \<Rightarrow> parcel \<Rightarrow> parcel"

record 'a call_result =
  ret :: 'a
  sent :: "32 word \<times> parcel"
  reply_left :: parcel
  errlog :: "(string \<times> int32) option"

text \<open>\<^verbatim>\<open>struct CameraInfo\<close>: the two \<^verbatim>\<open>int\<close> fields the file reads and writes.\<close>

record CameraInfo =
  facing :: int32
  orientation :: int32

definition getNumberOfCameras :: "transport \<Rightarrow> int32 call_result" where
  "getNumberOfCameras remote =
     (let data = writeInterfaceToken getInterfaceDescriptor emptyParcel;
          reply = remote GET_NUMBER_OF_CAMERAS data;
          e = readExceptionCode reply
      in if failed e
         then \<lparr>ret = 0, sent = (GET_NUMBER_OF_CAMERAS, data), reply_left = rest e,
               errlog = logged e\<rparr>
         else (let (v, reply2) = readInt32 (rest e)
               in \<lparr>ret = v, sent = (GET_NUMBER_OF_CAMERAS, data), reply_left = reply2,
                    errlog = logged e\<rparr>))"

text \<open>
  \<^verbatim>\<open>getCameraInfo(int cameraId, struct CameraInfo* cameraInfo)\<close>: the caller's record is
  passed in and returned, updated where the method assigns through the pointer.
\<close>

definition getCameraInfo ::
  "transport \<Rightarrow> int32 \<Rightarrow> CameraInfo \<Rightarrow> (status_t \<times> CameraInfo) call_result" where
  "getCameraInfo remote cameraId cameraInfo =
     (let data = writeInterfaceToken getInterfaceDescriptor emptyParcel;
          data = writeInt32 cameraId data;
          reply = remote GET_CAMERA_INFO data;
          e = readExceptionCode reply
      in if failed e
         then \<lparr>ret = (- EPROTO, cameraInfo), sent = (GET_CAMERA_INFO, data),
               reply_left = rest e, errlog = logged e\<rparr>
         else (let (result, reply2) = readInt32 (rest e);
                   (present, reply3) = readInt32 reply2
               in if present \<noteq> 0
                  then (let (f, reply4) = readInt32 reply3;
                            (orient, reply5) = readInt32 reply4
                        in \<lparr>ret = (result, cameraInfo\<lparr>facing := f, orientation := orient\<rparr>),
                             sent = (GET_CAMERA_INFO, data), reply_left = reply5,
                             errlog = logged e\<rparr>)
                  else \<lparr>ret = (result, cameraInfo), sent = (GET_CAMERA_INFO, data),
                        reply_left = reply3, errlog = logged e\<rparr>))"

text \<open>
  The three \<^verbatim>\<open>connect\<close> overloads differ in the callback interface, the opcode and the
  interface of the result; they are named after their opcodes.
\<close>

definition connect ::
  "transport \<Rightarrow> sp \<Rightarrow> int32 \<Rightarrow> string \<Rightarrow> int32 \<Rightarrow> sp call_result" where
  "connect remote cameraClient cameraId clientPackageName clientUid =
     (let data = writeInterfaceToken getInterfaceDescriptor emptyParcel;
          data = writeStrongBinder (asBinder cameraClient) data;
          data = writeInt32 cameraId data;
          data = writeString16 clientPackageName data;
          data = writeInt32 clientUid data;
          reply = remote CONNECT data;
          e = readExceptionCode reply
      in if failed e
         then \<lparr>ret = None, sent = (CONNECT, data), reply_left = rest e, errlog = logged e\<rparr>
         else (let (c, reply2) = readStrongBinder (rest e)
               in \<lparr>ret = interface_cast c, sent = (CONNECT, data), reply_left = reply2,
                    errlog = logged e\<rparr>))"

definition connectPro ::
  "transport \<Rightarrow> sp \<Rightarrow> int32 \<Rightarrow> string \<Rightarrow> int32 \<Rightarrow> sp call_result" where
  "connectPro remote cameraCb cameraId clientPackageName clientUid =
     (let data = writeInterfaceToken getInterfaceDescriptor emptyParcel;
          data = writeStrongBinder (asBinder cameraCb) data;
          data = writeInt32 cameraId data;
          data = writeString16 clientPackageName data;
          data = writeInt32 clientUid data;
          reply = remote CONNECT_PRO data;
          e = readExceptionCode reply
      in if failed e
         then \<lparr>ret = None, sent = (CONNECT_PRO, data), reply_left = rest e, errlog = logged e\<rparr>
         else (let (c, reply2) = readStrongBinder (rest e)
               in \<lparr>ret = interface_cast c, sent = (CONNECT_PRO, data), reply_left = reply2,
                    errlog = logged e\<rparr>))"

definition connectDevice ::
  "transport \<Rightarrow> sp \<Rightarrow> int32 \<Rightarrow> string \<Rightarrow> int32 \<Rightarrow> sp call_result" where
  "connectDevice remote cameraCb cameraId clientPackageName clientUid =
     (let data = writeInterfaceToken getInterfaceDescriptor emptyParcel;
          data = writeStrongBinder (asBinder cameraCb) data;
          data = writeInt32 cameraId data;
          data = writeString16 clientPackageName data;
          data = writeInt32 clientUid data;
          reply = remote CONNECT_DEVICE data;
          e = readExceptionCode reply
      in if failed e
         then \<lparr>ret = None, sent = (CONNECT_DEVICE, data), reply_left = rest e, errlog = logged e\<rparr>
         else (let (c, reply2) = readStrongBinder (rest e)
               in \<lparr>ret = interface_cast c, sent = (CONNECT_DEVICE, data), reply_left = reply2,
                    errlog = logged e\<rparr>))"

definition addListener :: "transport \<Rightarrow> sp \<Rightarrow> status_t call_result" where
  "addListener remote listener =
     (let data = writeInterfaceToken getInterfaceDescriptor emptyParcel;
          data = writeStrongBinder (asBinder listener) data;
          reply = remote ADD_LISTENER data;
          e = readExceptionCode reply
      in if failed e
         then \<lparr>ret = - EPROTO, sent = (ADD_LISTENER, data), reply_left = rest e,
               errlog = logged e\<rparr>
         else (let (v, reply2) = readInt32 (rest e)
               in \<lparr>ret = v, sent = (ADD_LISTENER, data), reply_left = reply2,
                    errlog = logged e\<rparr>))"

definition removeListener :: "transport \<Rightarrow> sp \<Rightarrow> status_t call_result" where
  "removeListener remote listener =
     (let data = writeInterfaceToken getInterfaceDescriptor emptyParcel;
          data = writeStrongBinder (asBinder listener) data;
          reply = remote REMOVE_LISTENER data;
          e = readExceptionCode reply
      in if failed e
         then \<lparr>ret = - EPROTO, sent = (REMOVE_LISTENER, data), reply_left = rest e,
               errlog = logged e\<rparr>
         else (let (v, reply2) = readInt32 (rest e)
               in \<lparr>ret = v, sent = (REMOVE_LISTENER, data), reply_left = reply2,
                    errlog = logged e\<rparr>))"

section \<open>The dispatch stub: BnCameraService::onTransact\<close>

text \<open>
  The local implementation is the set of virtual methods \<^verbatim>\<open>onTransact\<close> calls on
  \<^verbatim>\<open>this\<close>. Their bodies are the camera service's, outside this file, so they are
  parameters: each takes the service's state \<open>'s\<close> and returns its result and the new
  state. \<^verbatim>\<open>getCameraInfo\<close> also receives the record it fills in.
\<close>

record 's service =
  svc_getNumberOfCameras :: "'s \<Rightarrow> int32 \<times> 's"
  svc_getCameraInfo :: "int32 \<Rightarrow> CameraInfo \<Rightarrow> 's \<Rightarrow> (status_t \<times> CameraInfo) \<times> 's"
  svc_connect :: "sp \<Rightarrow> int32 \<Rightarrow> string \<Rightarrow> int32 \<Rightarrow> 's \<Rightarrow> sp \<times> 's"
  svc_connectPro :: "sp \<Rightarrow> int32 \<Rightarrow> string \<Rightarrow> int32 \<Rightarrow> 's \<Rightarrow> sp \<times> 's"
  svc_connectDevice :: "sp \<Rightarrow> int32 \<Rightarrow> string \<Rightarrow> int32 \<Rightarrow> 's \<Rightarrow> sp \<times> 's"
  svc_addListener :: "sp \<Rightarrow> 's \<Rightarrow> status_t \<times> 's"
  svc_removeListener :: "sp \<Rightarrow> 's \<Rightarrow> status_t \<times> 's"

datatype operation =
    GetNumberOfCameras | GetCameraInfo | Connect | ConnectPro | ConnectDevice
  | AddListener | RemoveListener

text \<open>
  What one transaction does, in the order it does it: the interface check with its
  verdict, each argument read from \<open>data\<close>, each call of a local method, each field
  written to \<open>reply\<close>.
\<close>

datatype event =
    Checked bool
  | ArgRead
  | Invoked operation
  | Written field

text \<open>
  The state of one transaction: the call envelope with its read cursor, the reply being
  built, the service's state and the events so far.
\<close>

record 's txn =
  t_data :: parcel
  t_reply :: parcel
  t_service :: 's
  t_events :: "event list"

definition log_event :: "event \<Rightarrow> 's txn \<Rightarrow> 's txn" where
  "log_event ev t = t\<lparr>t_events := t_events t @ [ev]\<rparr>"

text \<open>
  \<^verbatim>\<open>CHECK_INTERFACE(ICameraService, data, reply)\<close> is libbinder's macro
  \<^verbatim>\<open>if (!data.checkInterface(this)) { return PERMISSION_DENIED; }\<close>. Its test is
  \<open>data_checkInterface\<close>; the early return is written out in each case below.
\<close>

definition data_checkInterface :: "'s txn \<Rightarrow> bool \<times> 's txn" where
  "data_checkInterface t =
     (let (ok, d) = checkInterface (t_data t) in (ok, log_event (Checked ok) (t\<lparr>t_data := d\<rparr>)))"

definition data_readInt32 :: "'s txn \<Rightarrow> int32 \<times> 's txn" where
  "data_readInt32 t =
     (let (v, d) = readInt32 (t_data t) in (v, log_event ArgRead (t\<lparr>t_data := d\<rparr>)))"

definition data_readString16 :: "'s txn \<Rightarrow> string \<times> 's txn" where
  "data_readString16 t =
     (let (v, d) = readString16 (t_data t) in (v, log_event ArgRead (t\<lparr>t_data := d\<rparr>)))"

definition data_readStrongBinder :: "'s txn \<Rightarrow> sp \<times> 's txn" where
  "data_readStrongBinder t =
     (let (v, d) = readStrongBinder (t_data t) in (v, log_event ArgRead (t\<lparr>t_data := d\<rparr>)))"

definition reply_writeNoException :: "'s txn \<Rightarrow> 's txn" where
  "reply_writeNoException t =
     log_event (Written (Int32 0)) (t\<lparr>t_reply := writeNoException (t_reply t)\<rparr>)"

definition reply_writeInt32 :: "int32 \<Rightarrow> 's txn \<Rightarrow> 's txn" where
  "reply_writeInt32 v t = log_event (Written (Int32 v)) (t\<lparr>t_reply := writeInt32 v (t_reply t)\<rparr>)"

definition reply_writeStrongBinder :: "sp \<Rightarrow> 's txn \<Rightarrow> 's txn" where
  "reply_writeStrongBinder b t =
     log_event (Written (StrongBinder b)) (t\<lparr>t_reply := writeStrongBinder b (t_reply t)\<rparr>)"

text \<open>A call of a local method: it runs on the service's state and is recorded.\<close>

definition invoke :: "operation \<Rightarrow> ('s \<Rightarrow> 'a \<times> 's) \<Rightarrow> 's txn \<Rightarrow> 'a \<times> 's txn" where
  "invoke opn m t =
     (let (r, s') = m (t_service t) in (r, log_event (Invoked opn) (t\<lparr>t_service := s'\<rparr>)))"

text \<open>A transaction ends with the status \<^verbatim>\<open>onTransact\<close> returns and its final state.\<close>

type_synonym 's outcome = "status_t \<times> 's txn"

text \<open>\<^verbatim>\<open>CameraInfo()\<close> followed by \<^verbatim>\<open>memset(&cameraInfo, 0, sizeof(cameraInfo))\<close>.\<close>

definition zeroCameraInfo :: CameraInfo where
  "zeroCameraInfo = \<lparr>facing = 0, orientation = 0\<rparr>"

text \<open>The cases of the \<^verbatim>\<open>switch\<close>, one definition each, statement by statement.\<close>

definition case_GET_NUMBER_OF_CAMERAS :: "'s service \<Rightarrow> 's txn \<Rightarrow> 's outcome" where
  "case_GET_NUMBER_OF_CAMERAS svc t0 =
     (let (ok, t1) = data_checkInterface t0 in
      if \<not> ok then (PERMISSION_DENIED, t1)
      else (let t2 = reply_writeNoException t1;
                (n, t3) = invoke GetNumberOfCameras (svc_getNumberOfCameras svc) t2;
                t4 = reply_writeInt32 n t3
            in (NO_ERROR, t4)))"

definition case_GET_CAMERA_INFO :: "'s service \<Rightarrow> 's txn \<Rightarrow> 's outcome" where
  "case_GET_CAMERA_INFO svc t0 =
     (let (ok, t1) = data_checkInterface t0 in
      if \<not> ok then (PERMISSION_DENIED, t1)
      else (let cameraInfo = zeroCameraInfo;
                (cameraId, t2) = data_readInt32 t1;
                ((result, cameraInfo), t3) =
                   invoke GetCameraInfo (svc_getCameraInfo svc cameraId cameraInfo) t2;
                t4 = reply_writeNoException t3;
                t5 = reply_writeInt32 result t4;
                t6 = reply_writeInt32 1 t5;
                t7 = reply_writeInt32 (facing cameraInfo) t6;
                t8 = reply_writeInt32 (orientation cameraInfo) t7
            in (NO_ERROR, t8)))"

definition case_CONNECT :: "'s service \<Rightarrow> 's txn \<Rightarrow> 's outcome" where
  "case_CONNECT svc t0 =
     (let (ok, t1) = data_checkInterface t0 in
      if \<not> ok then (PERMISSION_DENIED, t1)
      else (let (b, t2) = data_readStrongBinder t1;
                cameraClient = interface_cast b;
                (cameraId, t3) = data_readInt32 t2;
                (clientName, t4) = data_readString16 t3;
                (clientUid, t5) = data_readInt32 t4;
                (camera, t6) =
                   invoke Connect
                     (svc_connect svc cameraClient cameraId clientName clientUid) t5;
                t7 = reply_writeNoException t6;
                t8 = reply_writeStrongBinder (asBinder camera) t7
            in (NO_ERROR, t8)))"

definition case_CONNECT_PRO :: "'s service \<Rightarrow> 's txn \<Rightarrow> 's outcome" where
  "case_CONNECT_PRO svc t0 =
     (let (ok, t1) = data_checkInterface t0 in
      if \<not> ok then (PERMISSION_DENIED, t1)
      else (let (b, t2) = data_readStrongBinder t1;
                cameraClient = interface_cast b;
                (cameraId, t3) = data_readInt32 t2;
                (clientName, t4) = data_readString16 t3;
                (clientUid, t5) = data_readInt32 t4;
                (camera, t6) =
                   invoke ConnectPro
                     (svc_connectPro svc cameraClient cameraId clientName clientUid) t5;
                t7 = reply_writeNoException t6;
                t8 = reply_writeStrongBinder (asBinder camera) t7
            in (NO_ERROR, t8)))"

definition case_CONNECT_DEVICE :: "'s service \<Rightarrow> 's txn \<Rightarrow> 's outcome" where
  "case_CONNECT_DEVICE svc t0 =
     (let (ok, t1) = data_checkInterface t0 in
      if \<not> ok then (PERMISSION_DENIED, t1)
      else (let (b, t2) = data_readStrongBinder t1;
                cameraClient = interface_cast b;
                (cameraId, t3) = data_readInt32 t2;
                (clientName, t4) = data_readString16 t3;
                (clientUid, t5) = data_readInt32 t4;
                (camera, t6) =
                   invoke ConnectDevice
                     (svc_connectDevice svc cameraClient cameraId clientName clientUid) t5;
                t7 = reply_writeNoException t6;
                t8 = reply_writeStrongBinder (asBinder camera) t7
            in (NO_ERROR, t8)))"

definition case_ADD_LISTENER :: "'s service \<Rightarrow> 's txn \<Rightarrow> 's outcome" where
  "case_ADD_LISTENER svc t0 =
     (let (ok, t1) = data_checkInterface t0 in
      if \<not> ok then (PERMISSION_DENIED, t1)
      else (let (b, t2) = data_readStrongBinder t1;
                listener = interface_cast b;
                t3 = reply_writeNoException t2;
                (st, t4) = invoke AddListener (svc_addListener svc listener) t3;
                t5 = reply_writeInt32 st t4
            in (NO_ERROR, t5)))"

definition case_REMOVE_LISTENER :: "'s service \<Rightarrow> 's txn \<Rightarrow> 's outcome" where
  "case_REMOVE_LISTENER svc t0 =
     (let (ok, t1) = data_checkInterface t0 in
      if \<not> ok then (PERMISSION_DENIED, t1)
      else (let (b, t2) = data_readStrongBinder t1;
                listener = interface_cast b;
                t3 = reply_writeNoException t2;
                (st, t4) = invoke RemoveListener (svc_removeListener svc listener) t3;
                t5 = reply_writeInt32 st t4
            in (NO_ERROR, t5)))"

text \<open>
  \<^verbatim>\<open>BBinder::onTransact\<close>, the \<^verbatim>\<open>default\<close> case, is libbinder's: it is a parameter of
  the stub, a function of the four arguments the stub passes on that returns a status and
  the reply.
\<close>

type_synonym fallback = "32 word \<Rightarrow> parcel \<Rightarrow> parcel \<Rightarrow> 32 word \<Rightarrow> status_t \<times> parcel"

definition onTransact ::
  "'s service \<Rightarrow> fallback \<Rightarrow> 32 word \<Rightarrow> parcel \<Rightarrow> parcel \<Rightarrow> 32 word \<Rightarrow> 's \<Rightarrow> 's outcome" where
  "onTransact svc super code data reply flags s =
     (let t0 = \<lparr>t_data = data, t_reply = reply, t_service = s, t_events = []\<rparr> in
      if code = GET_NUMBER_OF_CAMERAS then case_GET_NUMBER_OF_CAMERAS svc t0
      else if code = GET_CAMERA_INFO then case_GET_CAMERA_INFO svc t0
      else if code = CONNECT then case_CONNECT svc t0
      else if code = CONNECT_PRO then case_CONNECT_PRO svc t0
      else if code = CONNECT_DEVICE then case_CONNECT_DEVICE svc t0
      else if code = ADD_LISTENER then case_ADD_LISTENER svc t0
      else if code = REMOVE_LISTENER then case_REMOVE_LISTENER svc t0
      else (let (st, r) = super code data reply flags in (st, t0\<lparr>t_reply := r\<rparr>)))"

text \<open>
  Modelled from the spec: the body of \<^verbatim>\<open>BBinder::onTransact\<close> is not among the sources.
  The spec calls it the generic fallback for an unhandled operation, which must report a
  defined failure and must not succeed silently: it returns \<^verbatim>\<open>UNKNOWN_TRANSACTION\<close> and
  leaves the reply as it found it.
\<close>

definition BBinder_onTransact :: fallback where
  "BBinder_onTransact code data reply flags = (UNKNOWN_TRANSACTION, reply)"

text \<open>
  A well-formed call envelope: the interface token, then the arguments, unread.
\<close>

definition envelope :: "field list \<Rightarrow> parcel" where
  "envelope args = \<lparr>content = InterfaceToken getInterfaceDescriptor # args, cursor = 0\<rparr>"

section \<open>Notions used in the statements\<close>

text \<open>A transport that answers every call with the given reply.\<close>

definition deliver :: "parcel \<Rightarrow> transport" where
  "deliver reply code data = reply"

text \<open>
  A transport that hands the call to a stub whose service is in state \<open>s\<close>, with a fresh
  reply parcel, and returns the reply the stub built.
\<close>

definition loopback :: "'s service \<Rightarrow> fallback \<Rightarrow> 's \<Rightarrow> transport" where
  "loopback svc super s code data =
     t_reply (snd (onTransact svc super code data emptyParcel 0 s))"

text \<open>
  The four arguments each of the three connect cases reads after the interface check, in
  their order, from the envelope as the check leaves it.
\<close>

definition connect_args :: "parcel \<Rightarrow> sp \<times> int32 \<times> string \<times> int32" where
  "connect_args d1 =
     (let (b, d2) = readStrongBinder d1;
          (cameraId, d3) = readInt32 d2;
          (clientName, d4) = readString16 d3;
          (clientUid, d5) = readInt32 d4
      in (interface_cast b, cameraId, clientName, clientUid))"

text \<open>The local method a connect opcode calls, applied to decoded arguments.\<close>

definition local_connect ::
  "'s service \<Rightarrow> 32 word \<Rightarrow> sp \<times> int32 \<times> string \<times> int32 \<Rightarrow> 's \<Rightarrow> sp \<times> 's" where
  "local_connect svc code args s =
     (case args of (c, i, n, u) \<Rightarrow>
        if code = CONNECT then svc_connect svc c i n u s
        else if code = CONNECT_PRO then svc_connectPro svc c i n u s
        else svc_connectDevice svc c i n u s)"

text \<open>
  A sample local implementation, for concrete runs: two cameras; camera 0 faces front
  (1) at 90 degrees, any other id is rejected with \<^verbatim>\<open>BAD_VALUE\<close> (-22) and the record left
  as it was; the legacy connect refuses with null, the other two return objects 5 and 6;
  listeners are accepted.
\<close>

definition sampleService :: "unit service" where
  "sampleService =
     \<lparr>svc_getNumberOfCameras = (\<lambda>s. (2, s)),
      svc_getCameraInfo =
        (\<lambda>i ci s. if i = 0 then ((0, \<lparr>facing = 1, orientation = 90\<rparr>), s) else ((- 22, ci), s)),
      svc_connect = (\<lambda>c i n u s. (None, s)),
      svc_connectPro = (\<lambda>c i n u s. (Some 5, s)),
      svc_connectDevice = (\<lambda>c i n u s. (Some 6, s)),
      svc_addListener = (\<lambda>l s. (0, s)),
      svc_removeListener = (\<lambda>l s. (0, s))\<rparr>"

section \<open>Basic facts\<close>

lemmas opcode_defs = GET_NUMBER_OF_CAMERAS_def GET_CAMERA_INFO_def CONNECT_def CONNECT_PRO_def
  CONNECT_DEVICE_def ADD_LISTENER_def REMOVE_LISTENER_def

lemmas exception_defs = EX_SECURITY_def EX_BAD_PARCELABLE_def EX_ILLEGAL_ARGUMENT_def
  EX_NULL_POINTER_def EX_ILLEGAL_STATE_def EX_HAS_REPLY_HEADER_def

lemmas parcel_defs = readInt32_def readString16_def readStrongBinder_def peek_def advance_def
  writeInterfaceToken_def writeNoException_def writeInt32_def writeString16_def
  writeStrongBinder_def write_field_def emptyParcel_def Parcel_readExceptionCode_def
  EX_HAS_REPLY_HEADER_def split_def Let_def

lemmas txn_defs = data_checkInterface_def data_readInt32_def data_readString16_def
  data_readStrongBinder_def reply_writeNoException_def reply_writeInt32_def
  reply_writeStrongBinder_def invoke_def log_event_def writeNoException_def writeInt32_def
  writeStrongBinder_def write_field_def

lemmas case_defs = case_GET_NUMBER_OF_CAMERAS_def case_GET_CAMERA_INFO_def case_CONNECT_def
  case_CONNECT_PRO_def case_CONNECT_DEVICE_def case_ADD_LISTENER_def case_REMOVE_LISTENER_def

lemma recognized_cases:
  "code \<in> set recognized \<longleftrightarrow>
     code = GET_NUMBER_OF_CAMERAS \<or> code = GET_CAMERA_INFO \<or> code = CONNECT \<or>
     code = CONNECT_PRO \<or> code = CONNECT_DEVICE \<or> code = ADD_LISTENER \<or>
     code = REMOVE_LISTENER"
  by (auto simp: recognized_def)

lemma connect_cases:
  "code \<in> set connect_codes \<longleftrightarrow> code = CONNECT \<or> code = CONNECT_PRO \<or> code = CONNECT_DEVICE"
  by (auto simp: connect_codes_def)

lemma envelope_checks:
  "checkInterface (envelope args) =
     (True, \<lparr>content = InterfaceToken getInterfaceDescriptor # args, cursor = 1\<rparr>)"
  by (simp add: checkInterface_def envelope_def peek_def advance_def)

lemma emptyParcel_rejected: "checkInterface emptyParcel = (False, emptyParcel)"
  by (simp add: checkInterface_def emptyParcel_def peek_def)

text \<open>The \<^verbatim>\<open>switch\<close> sends each recognized opcode to its case.\<close>

lemma onTransact_dispatch:
  "onTransact svc super GET_NUMBER_OF_CAMERAS data reply flags s =
     case_GET_NUMBER_OF_CAMERAS svc \<lparr>t_data = data, t_reply = reply, t_service = s, t_events = []\<rparr>"
  "onTransact svc super GET_CAMERA_INFO data reply flags s =
     case_GET_CAMERA_INFO svc \<lparr>t_data = data, t_reply = reply, t_service = s, t_events = []\<rparr>"
  "onTransact svc super CONNECT data reply flags s =
     case_CONNECT svc \<lparr>t_data = data, t_reply = reply, t_service = s, t_events = []\<rparr>"
  "onTransact svc super CONNECT_PRO data reply flags s =
     case_CONNECT_PRO svc \<lparr>t_data = data, t_reply = reply, t_service = s, t_events = []\<rparr>"
  "onTransact svc super CONNECT_DEVICE data reply flags s =
     case_CONNECT_DEVICE svc \<lparr>t_data = data, t_reply = reply, t_service = s, t_events = []\<rparr>"
  "onTransact svc super ADD_LISTENER data reply flags s =
     case_ADD_LISTENER svc \<lparr>t_data = data, t_reply = reply, t_service = s, t_events = []\<rparr>"
  "onTransact svc super REMOVE_LISTENER data reply flags s =
     case_REMOVE_LISTENER svc \<lparr>t_data = data, t_reply = reply, t_service = s, t_events = []\<rparr>"
  by (simp_all add: onTransact_def opcode_defs)

text \<open>A failed interface check ends every case at once.\<close>

lemma rejected:
  assumes "\<not> fst (checkInterface data)"
  shows "case_GET_NUMBER_OF_CAMERAS svc
           \<lparr>t_data = data, t_reply = reply, t_service = s, t_events = []\<rparr> =
         (PERMISSION_DENIED, \<lparr>t_data = snd (checkInterface data), t_reply = reply,
                                   t_service = s, t_events = [Checked False]\<rparr>)"
    and "case_GET_CAMERA_INFO svc
           \<lparr>t_data = data, t_reply = reply, t_service = s, t_events = []\<rparr> =
         (PERMISSION_DENIED, \<lparr>t_data = snd (checkInterface data), t_reply = reply,
                                   t_service = s, t_events = [Checked False]\<rparr>)"
    and "case_CONNECT svc
           \<lparr>t_data = data, t_reply = reply, t_service = s, t_events = []\<rparr> =
         (PERMISSION_DENIED, \<lparr>t_data = snd (checkInterface data), t_reply = reply,
                                   t_service = s, t_events = [Checked False]\<rparr>)"
    and "case_CONNECT_PRO svc
           \<lparr>t_data = data, t_reply = reply, t_service = s, t_events = []\<rparr> =
         (PERMISSION_DENIED, \<lparr>t_data = snd (checkInterface data), t_reply = reply,
                                   t_service = s, t_events = [Checked False]\<rparr>)"
    and "case_CONNECT_DEVICE svc
           \<lparr>t_data = data, t_reply = reply, t_service = s, t_events = []\<rparr> =
         (PERMISSION_DENIED, \<lparr>t_data = snd (checkInterface data), t_reply = reply,
                                   t_service = s, t_events = [Checked False]\<rparr>)"
    and "case_ADD_LISTENER svc
           \<lparr>t_data = data, t_reply = reply, t_service = s, t_events = []\<rparr> =
         (PERMISSION_DENIED, \<lparr>t_data = snd (checkInterface data), t_reply = reply,
                                   t_service = s, t_events = [Checked False]\<rparr>)"
    and "case_REMOVE_LISTENER svc
           \<lparr>t_data = data, t_reply = reply, t_service = s, t_events = []\<rparr> =
         (PERMISSION_DENIED, \<lparr>t_data = snd (checkInterface data), t_reply = reply,
                                   t_service = s, t_events = [Checked False]\<rparr>)"
  using assms by (simp_all add: case_defs data_checkInterface_def log_event_def split_def)

text \<open>Whatever a case goes on to do, the first thing it does is the interface check.\<close>

lemma first_event:
  "\<exists>later. t_events (snd (case_GET_NUMBER_OF_CAMERAS svc
       \<lparr>t_data = data, t_reply = reply, t_service = s, t_events = []\<rparr>)) =
     Checked (fst (checkInterface data)) # later"
  "\<exists>later. t_events (snd (case_GET_CAMERA_INFO svc
       \<lparr>t_data = data, t_reply = reply, t_service = s, t_events = []\<rparr>)) =
     Checked (fst (checkInterface data)) # later"
  "\<exists>later. t_events (snd (case_CONNECT svc
       \<lparr>t_data = data, t_reply = reply, t_service = s, t_events = []\<rparr>)) =
     Checked (fst (checkInterface data)) # later"
  "\<exists>later. t_events (snd (case_CONNECT_PRO svc
       \<lparr>t_data = data, t_reply = reply, t_service = s, t_events = []\<rparr>)) =
     Checked (fst (checkInterface data)) # later"
  "\<exists>later. t_events (snd (case_CONNECT_DEVICE svc
       \<lparr>t_data = data, t_reply = reply, t_service = s, t_events = []\<rparr>)) =
     Checked (fst (checkInterface data)) # later"
  "\<exists>later. t_events (snd (case_ADD_LISTENER svc
       \<lparr>t_data = data, t_reply = reply, t_service = s, t_events = []\<rparr>)) =
     Checked (fst (checkInterface data)) # later"
  "\<exists>later. t_events (snd (case_REMOVE_LISTENER svc
       \<lparr>t_data = data, t_reply = reply, t_service = s, t_events = []\<rparr>)) =
     Checked (fst (checkInterface data)) # later"
  by (simp_all add: case_defs txn_defs split_def Let_def)

lemmas read_defs = readInt32_def readString16_def readStrongBinder_def peek_def advance_def
  Parcel_readExceptionCode_def EX_HAS_REPLY_HEADER_def split_def Let_def

lemmas proxy_defs = getNumberOfCameras_def getCameraInfo_def connect_def connectPro_def
  connectDevice_def addListener_def removeListener_def

lemmas eval_defs = onTransact_def case_defs txn_defs parcel_defs opcode_defs envelope_def
  checkInterface_def sampleService_def asBinder_def interface_cast_def zeroCameraInfo_def
  NO_ERROR_def PERMISSION_DENIED_def split_def Let_def

text \<open>
  Building the call envelope field by field gives a well-formed envelope.
\<close>

lemma envelope_built:
  "writeInterfaceToken getInterfaceDescriptor emptyParcel = envelope []"
  "writeInt32 v (envelope args) = envelope (args @ [Int32 v])"
  "writeString16 str (envelope args) = envelope (args @ [String16 str])"
  "writeStrongBinder b (envelope args) = envelope (args @ [StrongBinder b])"
  by (simp_all add: envelope_def writeInterfaceToken_def writeInt32_def writeString16_def
        writeStrongBinder_def write_field_def emptyParcel_def)

lemma asBinder_same: "asBinder p = p"
  by (simp add: asBinder_def split: option.splits)

text \<open>
  When the leading code of the reply is not zero, \<^verbatim>\<open>readExceptionCode\<close> returns true and has
  read that code only.
\<close>

lemma readExceptionCode_failed:
  assumes "fst (Parcel_readExceptionCode reply) \<noteq> 0"
  shows "failed (readExceptionCode reply)"
    and "rest (readExceptionCode reply) = snd (Parcel_readExceptionCode reply)"
  using assms by (simp_all add: readExceptionCode_def split_def Let_def)

text \<open>
  \<^verbatim>\<open>readExceptionCode\<close> returns true exactly when the code is not zero.
\<close>

lemma readExceptionCode_total:
  "failed (readExceptionCode reply) = (fst (Parcel_readExceptionCode reply) \<noteq> 0)"
  by (simp add: readExceptionCode_def split_def Let_def)

text \<open>
  The accepted path of each case: the status is \<^verbatim>\<open>NO_ERROR\<close> and the reply has grown by
  the zero code and the results.
\<close>

lemma accepted_GET_NUMBER_OF_CAMERAS:
  assumes "fst (checkInterface data)"
  shows "\<exists>t. case_GET_NUMBER_OF_CAMERAS svc
              \<lparr>t_data = data, t_reply = reply, t_service = s, t_events = []\<rparr> = (NO_ERROR, t) \<and>
             t_reply t = reply\<lparr>content := content reply @
               [Int32 0, Int32 (fst (svc_getNumberOfCameras svc s))]\<rparr>"
  using assms by (simp add: case_GET_NUMBER_OF_CAMERAS_def txn_defs split_def Let_def)

lemma accepted_GET_CAMERA_INFO:
  assumes "fst (checkInterface data)"
    and "fst (svc_getCameraInfo svc (fst (readInt32 (snd (checkInterface data)))) zeroCameraInfo s) = (st, ci)"
  shows "\<exists>t. case_GET_CAMERA_INFO svc
              \<lparr>t_data = data, t_reply = reply, t_service = s, t_events = []\<rparr> = (NO_ERROR, t) \<and>
             t_reply t = reply\<lparr>content := content reply @
               [Int32 0, Int32 st, Int32 1, Int32 (facing ci), Int32 (orientation ci)]\<rparr>"
  using assms by (simp add: case_GET_CAMERA_INFO_def txn_defs split_def Let_def)

lemma accepted_ADD_LISTENER:
  assumes "fst (checkInterface data)"
  shows "\<exists>t. case_ADD_LISTENER svc
              \<lparr>t_data = data, t_reply = reply, t_service = s, t_events = []\<rparr> = (NO_ERROR, t) \<and>
             t_reply t = reply\<lparr>content := content reply @
               [Int32 0, Int32 (fst (svc_addListener svc
                  (interface_cast (fst (readStrongBinder (snd (checkInterface data))))) s))]\<rparr>"
  using assms by (simp add: case_ADD_LISTENER_def txn_defs split_def Let_def)

lemma accepted_REMOVE_LISTENER:
  assumes "fst (checkInterface data)"
  shows "\<exists>t. case_REMOVE_LISTENER svc
              \<lparr>t_data = data, t_reply = reply, t_service = s, t_events = []\<rparr> = (NO_ERROR, t) \<and>
             t_reply t = reply\<lparr>content := content reply @
               [Int32 0, Int32 (fst (svc_removeListener svc
                  (interface_cast (fst (readStrongBinder (snd (checkInterface data))))) s))]\<rparr>"
  using assms by (simp add: case_REMOVE_LISTENER_def txn_defs split_def Let_def)

lemma accepted_connect:
  assumes "fst (checkInterface data)"
  shows "\<exists>t. case_CONNECT svc
              \<lparr>t_data = data, t_reply = reply, t_service = s, t_events = []\<rparr> = (NO_ERROR, t) \<and>
             t_reply t = reply\<lparr>content := content reply @
               [Int32 0, StrongBinder (asBinder
                  (fst (local_connect svc CONNECT (connect_args (snd (checkInterface data))) s)))]\<rparr>"
    and "\<exists>t. case_CONNECT_PRO svc
              \<lparr>t_data = data, t_reply = reply, t_service = s, t_events = []\<rparr> = (NO_ERROR, t) \<and>
             t_reply t = reply\<lparr>content := content reply @
               [Int32 0, StrongBinder (asBinder
                  (fst (local_connect svc CONNECT_PRO (connect_args (snd (checkInterface data))) s)))]\<rparr>"
    and "\<exists>t. case_CONNECT_DEVICE svc
              \<lparr>t_data = data, t_reply = reply, t_service = s, t_events = []\<rparr> = (NO_ERROR, t) \<and>
             t_reply t = reply\<lparr>content := content reply @
               [Int32 0, StrongBinder (asBinder
                  (fst (local_connect svc CONNECT_DEVICE (connect_args (snd (checkInterface data))) s)))]\<rparr>"
  using assms
  by (simp_all add: case_defs txn_defs split_def Let_def local_connect_def connect_args_def
        opcode_defs)

text \<open>
  The reply the stub hands back for a well-formed \<^verbatim>\<open>GET_CAMERA_INFO\<close> call.
\<close>

lemma loopback_GET_CAMERA_INFO:
  assumes "fst (svc_getCameraInfo svc cameraId zeroCameraInfo s) = (st, ci)"
  shows "loopback svc super s GET_CAMERA_INFO (envelope [Int32 cameraId]) =
     \<lparr>content = [Int32 0, Int32 st, Int32 1, Int32 (facing ci), Int32 (orientation ci)], cursor = 0\<rparr>"
proof -
  have c: "fst (checkInterface (envelope [Int32 cameraId]))"
    by (simp add: envelope_checks)
  have i: "fst (readInt32 (snd (checkInterface (envelope [Int32 cameraId])))) = cameraId"
    by (simp add: envelope_checks parcel_defs)
  from accepted_GET_CAMERA_INFO [OF c, of svc s st ci emptyParcel] assms i
  show ?thesis
    by (auto simp: loopback_def onTransact_dispatch emptyParcel_def)
qed

text \<open>
  The proxy's decoding of a successful \<^verbatim>\<open>GET_CAMERA_INFO\<close> reply, by the presence marker.
\<close>

lemma decode_present:
  assumes "remote GET_CAMERA_INFO (envelope [Int32 cameraId]) =
     \<lparr>content = Int32 0 # Int32 st # Int32 p # Int32 f # Int32 orient # extra, cursor = 0\<rparr>"
    and "p \<noteq> 0"
  shows "getCameraInfo remote cameraId info =
     \<lparr>ret = (st, \<lparr>facing = f, orientation = orient\<rparr>),
      sent = (GET_CAMERA_INFO, envelope [Int32 cameraId]),
      reply_left = \<lparr>content = Int32 0 # Int32 st # Int32 p # Int32 f # Int32 orient # extra,
                    cursor = 5\<rparr>,
      errlog = None\<rparr>"
  using assms
  by (simp add: getCameraInfo_def envelope_built readExceptionCode_def read_defs Let_def)

lemma decode_absent:
  assumes "remote GET_CAMERA_INFO (envelope [Int32 cameraId]) =
     \<lparr>content = Int32 0 # Int32 st # Int32 0 # extra, cursor = 0\<rparr>"
  shows "getCameraInfo remote cameraId info =
     \<lparr>ret = (st, info),
      sent = (GET_CAMERA_INFO, envelope [Int32 cameraId]),
      reply_left = \<lparr>content = Int32 0 # Int32 st # Int32 0 # extra, cursor = 3\<rparr>,
      errlog = None\<rparr>"
  using assms
  by (simp add: getCameraInfo_def envelope_built readExceptionCode_def read_defs Let_def)

section \<open>The proxy stops at a non-zero outcome code\<close>

text \<open>
  Claim C1. For each of the seven proxy operations: if the outcome code at the head of
  the reply is not zero, the proxy reads nothing after it (it leaves the reply as
  \<^verbatim>\<open>Parcel::readExceptionCode\<close> left it) and returns the operation's failure value: 0 for
  \<^verbatim>\<open>getNumberOfCameras\<close>, \<^verbatim>\<open>-EPROTO\<close> for \<^verbatim>\<open>getCameraInfo\<close> (the caller's record
  untouched), \<^verbatim>\<open>addListener\<close> and \<^verbatim>\<open>removeListener\<close>, and null for the three connects.
  The reply is the one the transport returns for the envelope the operation sends.
\<close>

theorem proxy_stops_on_exception:
  assumes "fst (Parcel_readExceptionCode reply) \<noteq> 0"
  shows
  "(remote GET_NUMBER_OF_CAMERAS (envelope []) = reply \<longrightarrow>
      ret (getNumberOfCameras remote) = 0 \<and>
      reply_left (getNumberOfCameras remote) = snd (Parcel_readExceptionCode reply)) \<and>
   (remote GET_CAMERA_INFO (envelope [Int32 cameraId]) = reply \<longrightarrow>
      ret (getCameraInfo remote cameraId info) = (- EPROTO, info) \<and>
      reply_left (getCameraInfo remote cameraId info) = snd (Parcel_readExceptionCode reply)) \<and>
   (remote CONNECT
        (envelope [StrongBinder (Some cb), Int32 cameraId, String16 pkg, Int32 uid]) = reply \<longrightarrow>
      ret (connect remote (Some cb) cameraId pkg uid) = None \<and>
      reply_left (connect remote (Some cb) cameraId pkg uid) =
        snd (Parcel_readExceptionCode reply)) \<and>
   (remote CONNECT_PRO
        (envelope [StrongBinder (Some cb), Int32 cameraId, String16 pkg, Int32 uid]) = reply \<longrightarrow>
      ret (connectPro remote (Some cb) cameraId pkg uid) = None \<and>
      reply_left (connectPro remote (Some cb) cameraId pkg uid) =
        snd (Parcel_readExceptionCode reply)) \<and>
   (remote CONNECT_DEVICE
        (envelope [StrongBinder (Some cb), Int32 cameraId, String16 pkg, Int32 uid]) = reply \<longrightarrow>
      ret (connectDevice remote (Some cb) cameraId pkg uid) = None \<and>
      reply_left (connectDevice remote (Some cb) cameraId pkg uid) =
        snd (Parcel_readExceptionCode reply)) \<and>
   (remote ADD_LISTENER (envelope [StrongBinder (Some l)]) = reply \<longrightarrow>
      ret (addListener remote (Some l)) = - EPROTO \<and>
      reply_left (addListener remote (Some l)) = snd (Parcel_readExceptionCode reply)) \<and>
   (remote REMOVE_LISTENER (envelope [StrongBinder (Some l)]) = reply \<longrightarrow>
      ret (removeListener remote (Some l)) = - EPROTO \<and>
      reply_left (removeListener remote (Some l)) = snd (Parcel_readExceptionCode reply))"
proof -
  note f = readExceptionCode_failed [OF assms]
  have 1: "remote GET_NUMBER_OF_CAMERAS (envelope []) = reply \<longrightarrow>
      ret (getNumberOfCameras remote) = 0 \<and>
      reply_left (getNumberOfCameras remote) = snd (Parcel_readExceptionCode reply)"
    by (simp add: getNumberOfCameras_def asBinder_same envelope_built Let_def f)
  have 2: "remote GET_CAMERA_INFO (envelope [Int32 cameraId]) = reply \<longrightarrow>
      ret (getCameraInfo remote cameraId info) = (- EPROTO, info) \<and>
      reply_left (getCameraInfo remote cameraId info) = snd (Parcel_readExceptionCode reply)"
    by (simp add: getCameraInfo_def asBinder_same envelope_built Let_def f)
  have 3: "remote CONNECT
        (envelope [StrongBinder (Some cb), Int32 cameraId, String16 pkg, Int32 uid]) = reply \<longrightarrow>
      ret (connect remote (Some cb) cameraId pkg uid) = None \<and>
      reply_left (connect remote (Some cb) cameraId pkg uid) =
        snd (Parcel_readExceptionCode reply)"
    by (simp add: connect_def asBinder_same envelope_built Let_def f)
  have 4: "remote CONNECT_PRO
        (envelope [StrongBinder (Some cb), Int32 cameraId, String16 pkg, Int32 uid]) = reply \<longrightarrow>
      ret (connectPro remote (Some cb) cameraId pkg uid) = None \<and>
      reply_left (connectPro remote (Some cb) cameraId pkg uid) =
        snd (Parcel_readExceptionCode reply)"
    by (simp add: connectPro_def asBinder_same envelope_built Let_def f)
  have 5: "remote CONNECT_DEVICE
        (envelope [StrongBinder (Some cb), Int32 cameraId, String16 pkg, Int32 uid]) = reply \<longrightarrow>
      ret (connectDevice remote (Some cb) cameraId pkg uid) = None \<and>
      reply_left (connectDevice remote (Some cb) cameraId pkg uid) =
        snd (Parcel_readExceptionCode reply)"
    by (simp add: connectDevice_def asBinder_same envelope_built Let_def f)
  have 6: "remote ADD_LISTENER (envelope [StrongBinder (Some l)]) = reply \<longrightarrow>
      ret (addListener remote (Some l)) = - EPROTO \<and>
      reply_left (addListener remote (Some l)) = snd (Parcel_readExceptionCode reply)"
    by (simp add: addListener_def asBinder_same envelope_built Let_def f)
  have 7: "remote REMOVE_LISTENER (envelope [StrongBinder (Some l)]) = reply \<longrightarrow>
      ret (removeListener remote (Some l)) = - EPROTO \<and>
      reply_left (removeListener remote (Some l)) = snd (Parcel_readExceptionCode reply)"
    by (simp add: removeListener_def asBinder_same envelope_built Let_def f)
  from 1 2 3 4 5 6 7 show ?thesis by blast
qed

text \<open>
  A reply refused with \<^verbatim>\<open>EX_SECURITY\<close> that carries one more field: the cursor stops at 1.
\<close>

theorem proxy_stops_on_exception_witness:
  "fst (Parcel_readExceptionCode \<lparr>content = [Int32 EX_SECURITY, Int32 4], cursor = 0\<rparr>) \<noteq> 0 \<and>
   ret (getNumberOfCameras (deliver \<lparr>content = [Int32 EX_SECURITY, Int32 4], cursor = 0\<rparr>)) = 0 \<and>
   reply_left (getNumberOfCameras (deliver \<lparr>content = [Int32 EX_SECURITY, Int32 4], cursor = 0\<rparr>)) =
     \<lparr>content = [Int32 EX_SECURITY, Int32 4], cursor = 1\<rparr> \<and>
   ret (getCameraInfo (deliver \<lparr>content = [Int32 EX_SECURITY, Int32 4], cursor = 0\<rparr>) 0
          \<lparr>facing = 1, orientation = 90\<rparr>) = (- EPROTO, \<lparr>facing = 1, orientation = 90\<rparr>)"
proof -
  let ?reply = "\<lparr>content = [Int32 EX_SECURITY, Int32 4], cursor = 0\<rparr>"
  have n: "fst (Parcel_readExceptionCode ?reply) \<noteq> 0"
    by (simp add: read_defs EX_SECURITY_def)
  have a: "snd (Parcel_readExceptionCode ?reply) = \<lparr>content = [Int32 EX_SECURITY, Int32 4], cursor = 1\<rparr>"
    by (simp add: read_defs EX_SECURITY_def)
  from proxy_stops_on_exception [OF n, of "deliver ?reply" 0 "\<lparr>facing = 1, orientation = 90\<rparr>"] n a
  show ?thesis
    by (simp add: deliver_def)
qed

section \<open>The presence marker of GetCameraInfo\<close>

text \<open>
  Claim C2, as the code has it. For every camera id, accepted by the service or not, the
  stub's reply to \<^verbatim>\<open>GET_CAMERA_INFO\<close> carries the service's status, then a presence marker that
  is always 1, then the facing and orientation of the record the service was given
  zero-filled. The proxy therefore always decodes the two fields of such a reply: it reads
  all five fields, whatever the status.
\<close>

theorem camera_info_always_present:
  "\<exists>t st ci.
     fst (svc_getCameraInfo svc cameraId zeroCameraInfo s) = (st, ci) \<and>
     onTransact svc super GET_CAMERA_INFO (envelope [Int32 cameraId]) reply flags s =
       (NO_ERROR, t) \<and>
     t_reply t = reply\<lparr>content := content reply @
       [Int32 0, Int32 st, Int32 1, Int32 (facing ci), Int32 (orientation ci)]\<rparr> \<and>
     reply_left (getCameraInfo (loopback svc super s) cameraId info) =
       \<lparr>content = [Int32 0, Int32 st, Int32 1, Int32 (facing ci), Int32 (orientation ci)],
        cursor = 5\<rparr>"
proof -
  obtain st ci where sc: "fst (svc_getCameraInfo svc cameraId zeroCameraInfo s) = (st, ci)"
    by (cases "fst (svc_getCameraInfo svc cameraId zeroCameraInfo s)")
  have c: "fst (checkInterface (envelope [Int32 cameraId]))"
    by (simp add: envelope_checks)
  have i: "fst (readInt32 (snd (checkInterface (envelope [Int32 cameraId])))) = cameraId"
    by (simp add: envelope_checks parcel_defs)
  from accepted_GET_CAMERA_INFO [OF c, of svc s st ci reply] sc i obtain t where
    t: "onTransact svc super GET_CAMERA_INFO (envelope [Int32 cameraId]) reply flags s =
       (NO_ERROR, t)"
      "t_reply t = reply\<lparr>content := content reply @
       [Int32 0, Int32 st, Int32 1, Int32 (facing ci), Int32 (orientation ci)]\<rparr>"
    by (auto simp: onTransact_dispatch)
  have "getCameraInfo (loopback svc super s) cameraId info =
     \<lparr>ret = (st, \<lparr>facing = facing ci, orientation = orientation ci\<rparr>),
      sent = (GET_CAMERA_INFO, envelope [Int32 cameraId]),
      reply_left = \<lparr>content = Int32 0 # Int32 st # Int32 1 # Int32 (facing ci) #
                                Int32 (orientation ci) # [], cursor = 5\<rparr>,
      errlog = None\<rparr>"
    by (rule decode_present) (simp_all add: loopback_GET_CAMERA_INFO [OF sc])
  then have "reply_left (getCameraInfo (loopback svc super s) cameraId info) =
       \<lparr>content = [Int32 0, Int32 st, Int32 1, Int32 (facing ci), Int32 (orientation ci)],
        cursor = 5\<rparr>"
    by simp
  with sc t show ?thesis by blast
qed

text \<open>
  The claim as stated asks for a presence marker 0 when the id is invalid. The sample
  service rejects id 99 with status -22 and leaves the record alone; the stub still
  writes the marker 1 and two zeros, and the proxy reads them into the caller's record,
  which held facing 1 and orientation 90.
\<close>

theorem invalid_id_presence_counterexample:
  "onTransact sampleService BBinder_onTransact GET_CAMERA_INFO (envelope [Int32 99])
      emptyParcel 0 () =
     (NO_ERROR,
          \<lparr>t_data = \<lparr>content = [InterfaceToken getInterfaceDescriptor, Int32 99], cursor = 2\<rparr>,
           t_reply = \<lparr>content = [Int32 0, Int32 (- 22), Int32 1, Int32 0, Int32 0], cursor = 0\<rparr>,
           t_service = (),
           t_events = [Checked True, ArgRead, Invoked GetCameraInfo, Written (Int32 0),
                       Written (Int32 (- 22)), Written (Int32 1), Written (Int32 0),
                       Written (Int32 0)]\<rparr>) \<and>
   getCameraInfo (loopback sampleService BBinder_onTransact ()) 99
      \<lparr>facing = 1, orientation = 90\<rparr> =
     \<lparr>ret = (- 22, \<lparr>facing = 0, orientation = 0\<rparr>),
      sent = (GET_CAMERA_INFO, envelope [Int32 99]),
      reply_left = \<lparr>content = [Int32 0, Int32 (- 22), Int32 1, Int32 0, Int32 0], cursor = 5\<rparr>,
      errlog = None\<rparr>"
proof -
  have a: "onTransact sampleService BBinder_onTransact GET_CAMERA_INFO (envelope [Int32 99])
      emptyParcel 0 () =
     (NO_ERROR,
          \<lparr>t_data = \<lparr>content = [InterfaceToken getInterfaceDescriptor, Int32 99], cursor = 2\<rparr>,
           t_reply = \<lparr>content = [Int32 0, Int32 (- 22), Int32 1, Int32 0, Int32 0], cursor = 0\<rparr>,
           t_service = (),
           t_events = [Checked True, ArgRead, Invoked GetCameraInfo, Written (Int32 0),
                       Written (Int32 (- 22)), Written (Int32 1), Written (Int32 0),
                       Written (Int32 0)]\<rparr>)"
    by (simp add: eval_defs)
  have b: "getCameraInfo (loopback sampleService BBinder_onTransact ()) 99
      \<lparr>facing = 1, orientation = 90\<rparr> =
     \<lparr>ret = (- 22, \<lparr>facing = 0, orientation = 0\<rparr>),
      sent = (GET_CAMERA_INFO, envelope [Int32 99]),
      reply_left = \<lparr>content = Int32 0 # Int32 (- 22) # Int32 1 # Int32 0 # Int32 0 # [], cursor = 5\<rparr>,
      errlog = None\<rparr>"
    by (rule decode_present) (simp_all add: loopback_def a envelope_built)
  from a b show ?thesis by simp
qed

section \<open>Decoding the outcome code\<close>

text \<open>
  Claim C3 asks that the code of \<^verbatim>\<open>EX_ILLEGAL_ARGUMENT\<close> be decoded to its own entry. The
  \<^verbatim>\<open>switch\<close> has no case for it: the code falls to \<^verbatim>\<open>default\<close>, and a reply that starts
  with it is reported as a failure with the message "Unknown".
\<close>

theorem illegal_argument_logged_unknown:
  "errorMsg EX_ILLEGAL_ARGUMENT = ''Unknown'' \<and>
   readExceptionCode \<lparr>content = [Int32 EX_ILLEGAL_ARGUMENT], cursor = 0\<rparr> =
     \<lparr>failed = True, logged = Some (''Unknown'', EX_ILLEGAL_ARGUMENT),
      rest = \<lparr>content = [Int32 EX_ILLEGAL_ARGUMENT], cursor = 1\<rparr>\<rparr>"
  by (simp add: errorMsg_def readExceptionCode_def read_defs exception_defs)

text \<open>
  The other entries of the enum have their own messages, and every code outside the
  five cases of the \<^verbatim>\<open>switch\<close> gets the message of \<^verbatim>\<open>default\<close>.
\<close>

lemma errorMsg_table:
  "errorMsg EX_SECURITY = ''Security''"
  "errorMsg EX_BAD_PARCELABLE = ''BadParcelable''"
  "errorMsg EX_NULL_POINTER = ''NullPointer''"
  "errorMsg EX_ILLEGAL_STATE = ''IllegalState''"
  "errorMsg EX_HAS_REPLY_HEADER = ''HasReplyHeader''"
  by (simp_all add: errorMsg_def exception_defs)

lemma errorMsg_other:
  assumes "c \<notin> {EX_SECURITY, EX_BAD_PARCELABLE, EX_NULL_POINTER, EX_ILLEGAL_STATE, EX_HAS_REPLY_HEADER}"
  shows "errorMsg c = ''Unknown''"
  using assms by (simp add: errorMsg_def)

section \<open>Round trip of the camera descriptor\<close>

text \<open>
  Claim C4. What the stub encodes, the proxy decodes: through a stub, the proxy returns
  exactly the status and the record (facing and orientation) the service produced. On a
  reply whose presence marker is 1 the proxy returns the facing and orientation that
  follow it; on a reply whose presence marker is 0 it stops after the marker (cursor 3)
  and returns the caller's record unchanged.
\<close>

theorem camera_descriptor_round_trip:
  "ret (getCameraInfo (loopback svc super s) cameraId info) =
     fst (svc_getCameraInfo svc cameraId zeroCameraInfo s) \<and>
   getCameraInfo
     (deliver \<lparr>content = Int32 0 # Int32 st # Int32 1 # Int32 f # Int32 orient # extra, cursor = 0\<rparr>)
     cameraId info =
     \<lparr>ret = (st, \<lparr>facing = f, orientation = orient\<rparr>),
      sent = (GET_CAMERA_INFO, envelope [Int32 cameraId]),
      reply_left = \<lparr>content = Int32 0 # Int32 st # Int32 1 # Int32 f # Int32 orient # extra,
                    cursor = 5\<rparr>,
      errlog = None\<rparr> \<and>
   getCameraInfo (deliver \<lparr>content = Int32 0 # Int32 st # Int32 0 # extra, cursor = 0\<rparr>)
     cameraId info =
     \<lparr>ret = (st, info),
      sent = (GET_CAMERA_INFO, envelope [Int32 cameraId]),
      reply_left = \<lparr>content = Int32 0 # Int32 st # Int32 0 # extra, cursor = 3\<rparr>,
      errlog = None\<rparr>"
proof -
  obtain st' ci where sc: "fst (svc_getCameraInfo svc cameraId zeroCameraInfo s) = (st', ci)"
    by (cases "fst (svc_getCameraInfo svc cameraId zeroCameraInfo s)")
  have "getCameraInfo (loopback svc super s) cameraId info =
     \<lparr>ret = (st', \<lparr>facing = facing ci, orientation = orientation ci\<rparr>),
      sent = (GET_CAMERA_INFO, envelope [Int32 cameraId]),
      reply_left = \<lparr>content = Int32 0 # Int32 st' # Int32 1 # Int32 (facing ci) #
                                Int32 (orientation ci) # [], cursor = 5\<rparr>,
      errlog = None\<rparr>"
    by (rule decode_present) (simp_all add: loopback_GET_CAMERA_INFO [OF sc])
  then have 1: "ret (getCameraInfo (loopback svc super s) cameraId info) =
     fst (svc_getCameraInfo svc cameraId zeroCameraInfo s)"
    by (simp add: sc)
  have 2: "getCameraInfo
     (deliver \<lparr>content = Int32 0 # Int32 st # Int32 1 # Int32 f # Int32 orient # extra, cursor = 0\<rparr>)
     cameraId info =
     \<lparr>ret = (st, \<lparr>facing = f, orientation = orient\<rparr>),
      sent = (GET_CAMERA_INFO, envelope [Int32 cameraId]),
      reply_left = \<lparr>content = Int32 0 # Int32 st # Int32 1 # Int32 f # Int32 orient # extra,
                    cursor = 5\<rparr>,
      errlog = None\<rparr>"
    by (rule decode_present) (simp_all add: deliver_def)
  have 3: "getCameraInfo (deliver \<lparr>content = Int32 0 # Int32 st # Int32 0 # extra, cursor = 0\<rparr>)
     cameraId info =
     \<lparr>ret = (st, info),
      sent = (GET_CAMERA_INFO, envelope [Int32 cameraId]),
      reply_left = \<lparr>content = Int32 0 # Int32 st # Int32 0 # extra, cursor = 3\<rparr>,
      errlog = None\<rparr>"
    by (rule decode_absent) (simp add: deliver_def)
  from 1 2 3 show ?thesis by blast
qed

section \<open>The interface check comes first\<close>

text \<open>
  Claim C5. For every recognized opcode the stub checks the interface descriptor of the
  envelope before it decodes any argument: the check is the first event of the
  transaction. When the descriptor does not match, the check is the only event: no
  argument is read, no local method is called, nothing is written to the reply, the
  service's state is untouched, and the stub returns \<^verbatim>\<open>PERMISSION_DENIED\<close>.
\<close>

theorem interface_check_first:
  assumes "code \<in> set recognized"
  shows "(\<exists>later. t_events (snd (onTransact svc super code data reply flags s)) =
            Checked (fst (checkInterface data)) # later) \<and>
         (\<not> fst (checkInterface data) \<longrightarrow>
            onTransact svc super code data reply flags s =
              (PERMISSION_DENIED,
                   \<lparr>t_data = snd (checkInterface data), t_reply = reply, t_service = s,
                    t_events = [Checked False]\<rparr>))"
proof -
  from assms consider
      "code = GET_NUMBER_OF_CAMERAS" | "code = GET_CAMERA_INFO" | "code = CONNECT"
    | "code = CONNECT_PRO" | "code = CONNECT_DEVICE" | "code = ADD_LISTENER"
    | "code = REMOVE_LISTENER"
    unfolding recognized_cases by blast
  then show ?thesis
  proof cases
    case 1 then show ?thesis by (simp add: onTransact_dispatch first_event rejected)
  next
    case 2 then show ?thesis by (simp add: onTransact_dispatch first_event rejected)
  next
    case 3 then show ?thesis by (simp add: onTransact_dispatch first_event rejected)
  next
    case 4 then show ?thesis by (simp add: onTransact_dispatch first_event rejected)
  next
    case 5 then show ?thesis by (simp add: onTransact_dispatch first_event rejected)
  next
    case 6 then show ?thesis by (simp add: onTransact_dispatch first_event rejected)
  next
    case 7 then show ?thesis by (simp add: onTransact_dispatch first_event rejected)
  qed
qed

text \<open>
  A connect call whose envelope is empty, so that the check fails: the stub stops after
  the check.
\<close>

theorem interface_check_first_witness:
  "CONNECT \<in> set recognized \<and> \<not> fst (checkInterface emptyParcel) \<and>
   onTransact sampleService BBinder_onTransact CONNECT emptyParcel emptyParcel 0 () =
     (PERMISSION_DENIED,
          \<lparr>t_data = emptyParcel, t_reply = emptyParcel, t_service = (),
           t_events = [Checked False]\<rparr>)"
proof -
  have r: "CONNECT \<in> set recognized"
    by (simp add: recognized_def)
  show ?thesis
    using interface_check_first [OF r, of sampleService BBinder_onTransact emptyParcel
        emptyParcel 0 "()"] r
    by (simp add: emptyParcel_rejected)
qed

section \<open>The stub's reply\<close>

text \<open>
  Claim C6. For every recognized opcode whose envelope passes the interface check, the
  stub returns \<^verbatim>\<open>NO_ERROR\<close> and has appended to the reply the zero outcome code, first, and
  then exactly the operation's results in their order: the count; the status, the
  presence marker, facing and orientation; the reference, as \<^verbatim>\<open>asBinder()\<close> gives it; the
  status. No case writes anything else, and none returns before its last result.
\<close>

theorem stub_success_reply:
  assumes "code \<in> set recognized" and "fst (checkInterface data)"
  shows "\<exists>t results.
           onTransact svc super code data reply flags s = (NO_ERROR, t) \<and>
           t_reply t = reply\<lparr>content := content reply @ Int32 0 # results\<rparr> \<and>
           (code = GET_NUMBER_OF_CAMERAS \<longrightarrow>
              results = [Int32 (fst (svc_getNumberOfCameras svc s))]) \<and>
           (code = GET_CAMERA_INFO \<longrightarrow>
              (\<exists>st ci. fst (svc_getCameraInfo svc (fst (readInt32 (snd (checkInterface data))))
                               zeroCameraInfo s) = (st, ci) \<and>
                 results = [Int32 st, Int32 1, Int32 (facing ci), Int32 (orientation ci)])) \<and>
           (code \<in> set connect_codes \<longrightarrow>
              results = [StrongBinder (asBinder
                 (fst (local_connect svc code (connect_args (snd (checkInterface data))) s)))]) \<and>
           (code = ADD_LISTENER \<longrightarrow>
              results = [Int32 (fst (svc_addListener svc
                 (interface_cast (fst (readStrongBinder (snd (checkInterface data))))) s))]) \<and>
           (code = REMOVE_LISTENER \<longrightarrow>
              results = [Int32 (fst (svc_removeListener svc
                 (interface_cast (fst (readStrongBinder (snd (checkInterface data))))) s))])"
proof -
  from assms(1) consider
      "code = GET_NUMBER_OF_CAMERAS" | "code = GET_CAMERA_INFO" | "code = CONNECT"
    | "code = CONNECT_PRO" | "code = CONNECT_DEVICE" | "code = ADD_LISTENER"
    | "code = REMOVE_LISTENER"
    unfolding recognized_cases by blast
  then show ?thesis
  proof cases
    case 1
    then have tr: "onTransact svc super code data reply flags s =
        case_GET_NUMBER_OF_CAMERAS svc \<lparr>t_data = data, t_reply = reply, t_service = s, t_events = []\<rparr>"
      by (simp add: onTransact_dispatch)
    from accepted_GET_NUMBER_OF_CAMERAS [OF assms(2), of svc reply s] obtain t where
      "case_GET_NUMBER_OF_CAMERAS svc \<lparr>t_data = data, t_reply = reply, t_service = s, t_events = []\<rparr> = (NO_ERROR, t)"
      "t_reply t = reply\<lparr>content := content reply @
         [Int32 0, Int32 (fst (svc_getNumberOfCameras svc s))]\<rparr>"
      by blast
    with 1 show ?thesis
      unfolding tr by (simp add: opcode_defs connect_cases)
  next
    case 2
    then have tr: "onTransact svc super code data reply flags s =
        case_GET_CAMERA_INFO svc \<lparr>t_data = data, t_reply = reply, t_service = s, t_events = []\<rparr>"
      by (simp add: onTransact_dispatch)
    obtain st ci where
      sc: "fst (svc_getCameraInfo svc (fst (readInt32 (snd (checkInterface data))))
             zeroCameraInfo s) = (st, ci)"
      by (cases "fst (svc_getCameraInfo svc (fst (readInt32 (snd (checkInterface data))))
        zeroCameraInfo s)")
    from accepted_GET_CAMERA_INFO [OF assms(2) sc, of reply] obtain t where
      "case_GET_CAMERA_INFO svc \<lparr>t_data = data, t_reply = reply, t_service = s, t_events = []\<rparr> = (NO_ERROR, t)"
      "t_reply t = reply\<lparr>content := content reply @
         [Int32 0, Int32 st, Int32 1, Int32 (facing ci), Int32 (orientation ci)]\<rparr>"
      by blast
    with 2 sc show ?thesis
      unfolding tr by (simp add: opcode_defs connect_cases)
  next
    case 3
    then have tr: "onTransact svc super code data reply flags s =
        case_CONNECT svc \<lparr>t_data = data, t_reply = reply, t_service = s, t_events = []\<rparr>"
      by (simp add: onTransact_dispatch)
    from accepted_connect(1) [OF assms(2), of svc reply s] 3 obtain t where
      "case_CONNECT svc \<lparr>t_data = data, t_reply = reply, t_service = s, t_events = []\<rparr> = (NO_ERROR, t)"
      "t_reply t = reply\<lparr>content := content reply @
         [Int32 0, StrongBinder (asBinder (fst (local_connect svc code (connect_args (snd (checkInterface data))) s)))]\<rparr>"
      by blast
    with 3 show ?thesis
      unfolding tr by (simp add: opcode_defs connect_cases)
  next
    case 4
    then have tr: "onTransact svc super code data reply flags s =
        case_CONNECT_PRO svc \<lparr>t_data = data, t_reply = reply, t_service = s, t_events = []\<rparr>"
      by (simp add: onTransact_dispatch)
    from accepted_connect(2) [OF assms(2), of svc reply s] 4 obtain t where
      "case_CONNECT_PRO svc \<lparr>t_data = data, t_reply = reply, t_service = s, t_events = []\<rparr> = (NO_ERROR, t)"
      "t_reply t = reply\<lparr>content := content reply @
         [Int32 0, StrongBinder (asBinder (fst (local_connect svc code (connect_args (snd (checkInterface data))) s)))]\<rparr>"
      by blast
    with 4 show ?thesis
      unfolding tr by (simp add: opcode_defs connect_cases)
  next
    case 5
    then have tr: "onTransact svc super code data reply flags s =
        case_CONNECT_DEVICE svc \<lparr>t_data = data, t_reply = reply, t_service = s, t_events = []\<rparr>"
      by (simp add: onTransact_dispatch)
    from accepted_connect(3) [OF assms(2), of svc reply s] 5 obtain t where
      "case_CONNECT_DEVICE svc \<lparr>t_data = data, t_reply = reply, t_service = s, t_events = []\<rparr> = (NO_ERROR, t)"
      "t_reply t = reply\<lparr>content := content reply @
         [Int32 0, StrongBinder (asBinder (fst (local_connect svc code (connect_args (snd (checkInterface data))) s)))]\<rparr>"
      by blast
    with 5 show ?thesis
      unfolding tr by (simp add: opcode_defs connect_cases)
  next
    case 6
    then have tr: "onTransact svc super code data reply flags s =
        case_ADD_LISTENER svc \<lparr>t_data = data, t_reply = reply, t_service = s, t_events = []\<rparr>"
      by (simp add: onTransact_dispatch)
    from accepted_ADD_LISTENER [OF assms(2), of svc reply s] obtain t where
      "case_ADD_LISTENER svc \<lparr>t_data = data, t_reply = reply, t_service = s, t_events = []\<rparr> = (NO_ERROR, t)"
      "t_reply t = reply\<lparr>content := content reply @
         [Int32 0, Int32 (fst (svc_addListener svc
            (interface_cast (fst (readStrongBinder (snd (checkInterface data))))) s))]\<rparr>"
      by blast
    with 6 show ?thesis
      unfolding tr by (simp add: opcode_defs connect_cases)
  next
    case 7
    then have tr: "onTransact svc super code data reply flags s =
        case_REMOVE_LISTENER svc \<lparr>t_data = data, t_reply = reply, t_service = s, t_events = []\<rparr>"
      by (simp add: onTransact_dispatch)
    from accepted_REMOVE_LISTENER [OF assms(2), of svc reply s] obtain t where
      "case_REMOVE_LISTENER svc \<lparr>t_data = data, t_reply = reply, t_service = s, t_events = []\<rparr> = (NO_ERROR, t)"
      "t_reply t = reply\<lparr>content := content reply @
         [Int32 0, Int32 (fst (svc_removeListener svc
            (interface_cast (fst (readStrongBinder (snd (checkInterface data))))) s))]\<rparr>"
      by blast
    with 7 show ?thesis
      unfolding tr by (simp add: opcode_defs connect_cases)
  qed
qed

text \<open>
  The pro connect of the sample service returns object 5.
\<close>

theorem stub_success_reply_witness:
  "CONNECT_PRO \<in> set recognized \<and>
   fst (checkInterface (envelope [StrongBinder (Some 1), Int32 0, String16 ''pkg'', Int32 1000])) \<and>
   (\<exists>t. onTransact sampleService BBinder_onTransact CONNECT_PRO
          (envelope [StrongBinder (Some 1), Int32 0, String16 ''pkg'', Int32 1000]) emptyParcel 0 () =
        (NO_ERROR, t) \<and>
        t_reply t = \<lparr>content = [Int32 0, StrongBinder (Some 5)], cursor = 0\<rparr>)"
proof -
  let ?data = "envelope [StrongBinder (Some 1), Int32 0, String16 ''pkg'', Int32 1000]"
  have r: "CONNECT_PRO \<in> set recognized"
    by (simp add: recognized_def)
  have c: "fst (checkInterface ?data)"
    by (simp add: envelope_checks)
  have l: "fst (local_connect sampleService CONNECT_PRO
             (connect_args (snd (checkInterface ?data))) ()) = Some 5"
    by (simp add: envelope_checks local_connect_def connect_args_def sampleService_def
          read_defs interface_cast_def opcode_defs)
  from stub_success_reply [OF r c, of sampleService BBinder_onTransact emptyParcel 0 "()"] r c l
  show ?thesis
    by (auto simp: connect_cases emptyParcel_def asBinder_same)
qed

section \<open>Two replies, one return value\<close>

text \<open>
  Claim C7. There are two different replies, one with outcome code zero and count 0, one
  with the outcome code \<^verbatim>\<open>EX_SECURITY\<close> and no result field, for which
  \<^verbatim>\<open>getNumberOfCameras\<close> returns the same value 0.
\<close>

theorem count_zero_ambiguous:
  "\<exists>r1 r2. r1 \<noteq> r2 \<and>
     r1 = \<lparr>content = [Int32 0, Int32 0], cursor = 0\<rparr> \<and>
     r2 = \<lparr>content = [Int32 EX_SECURITY], cursor = 0\<rparr> \<and>
     fst (Parcel_readExceptionCode r1) = 0 \<and>
     fst (Parcel_readExceptionCode r2) = EX_SECURITY \<and> EX_SECURITY \<noteq> 0 \<and>
     ret (getNumberOfCameras (deliver r1)) = 0 \<and>
     ret (getNumberOfCameras (deliver r2)) = 0"
  by (simp add: getNumberOfCameras_def readExceptionCode_def deliver_def read_defs
        EX_SECURITY_def)

section \<open>Unrecognized opcodes\<close>

text \<open>
  Claim C8. An opcode that is none of the seven is handed to the fallback handler with
  the stub's own arguments, and the stub returns what the fallback returns: it reads no
  argument, calls no local method and writes nothing itself. With the fallback of the
  spec the status is \<^verbatim>\<open>UNKNOWN_TRANSACTION\<close>, which is not \<^verbatim>\<open>NO_ERROR\<close>, and the reply is
  left as it was.
\<close>

theorem unrecognized_opcode_delegates:
  assumes "code \<notin> set recognized"
  shows "onTransact svc super code data reply flags s =
           (fst (super code data reply flags),
                \<lparr>t_data = data, t_reply = snd (super code data reply flags), t_service = s,
                 t_events = []\<rparr>) \<and>
         onTransact svc BBinder_onTransact code data reply flags s =
           (UNKNOWN_TRANSACTION,
                \<lparr>t_data = data, t_reply = reply, t_service = s, t_events = []\<rparr>) \<and>
         UNKNOWN_TRANSACTION \<noteq> NO_ERROR"
  using assms
  by (simp add: recognized_cases onTransact_def split_def Let_def BBinder_onTransact_def
        UNKNOWN_TRANSACTION_def NO_ERROR_def)

text \<open>
  Opcode 8.
\<close>

theorem unrecognized_opcode_delegates_witness:
  "(8 :: 32 word) \<notin> set recognized \<and>
   onTransact sampleService BBinder_onTransact 8 (envelope []) emptyParcel 0 () =
     (UNKNOWN_TRANSACTION,
          \<lparr>t_data = envelope [], t_reply = emptyParcel, t_service = (), t_events = []\<rparr>)"
proof -
  have r: "(8 :: 32 word) \<notin> set recognized"
    by (simp add: recognized_def opcode_defs)
  from unrecognized_opcode_delegates [OF r, of sampleService BBinder_onTransact "envelope []"
      emptyParcel 0 "()"] r
  show ?thesis
    by (simp add: BBinder_onTransact_def)
qed

section \<open>The call envelopes\<close>

text \<open>
  Claim C9. Each of the seven proxy operations hands the transport its own opcode and an
  envelope that starts with the interface token and then holds exactly the operation's
  arguments in order: nothing for \<^verbatim>\<open>getNumberOfCameras\<close>; the id for \<^verbatim>\<open>getCameraInfo\<close>; the
  callback reference, id, package name and uid for each connect; the listener reference
  for \<^verbatim>\<open>addListener\<close> and \<^verbatim>\<open>removeListener\<close>.
\<close>

theorem proxy_envelopes:
  "sent (getNumberOfCameras remote) = (GET_NUMBER_OF_CAMERAS, envelope []) \<and>
   sent (getCameraInfo remote cameraId info) = (GET_CAMERA_INFO, envelope [Int32 cameraId]) \<and>
   sent (connect remote (Some cb) cameraId pkg uid) =
     (CONNECT, envelope [StrongBinder (Some cb), Int32 cameraId, String16 pkg, Int32 uid]) \<and>
   sent (connectPro remote (Some cb) cameraId pkg uid) =
     (CONNECT_PRO, envelope [StrongBinder (Some cb), Int32 cameraId, String16 pkg, Int32 uid]) \<and>
   sent (connectDevice remote (Some cb) cameraId pkg uid) =
     (CONNECT_DEVICE, envelope [StrongBinder (Some cb), Int32 cameraId, String16 pkg, Int32 uid]) \<and>
   sent (addListener remote (Some l)) = (ADD_LISTENER, envelope [StrongBinder (Some l)]) \<and>
   sent (removeListener remote (Some l)) = (REMOVE_LISTENER, envelope [StrongBinder (Some l)])"
proof -
  have 1: "sent (getNumberOfCameras remote) = (GET_NUMBER_OF_CAMERAS, envelope [])"
    by (simp add: getNumberOfCameras_def asBinder_same envelope_built Let_def split_def)
  have 2: "sent (getCameraInfo remote cameraId info) = (GET_CAMERA_INFO, envelope [Int32 cameraId])"
    by (simp add: getCameraInfo_def asBinder_same envelope_built Let_def split_def)
  have 3: "sent (connect remote (Some cb) cameraId pkg uid) =
     (CONNECT, envelope [StrongBinder (Some cb), Int32 cameraId, String16 pkg, Int32 uid])"
    by (simp add: connect_def asBinder_same envelope_built Let_def split_def)
  have 4: "sent (connectPro remote (Some cb) cameraId pkg uid) =
     (CONNECT_PRO, envelope [StrongBinder (Some cb), Int32 cameraId, String16 pkg, Int32 uid])"
    by (simp add: connectPro_def asBinder_same envelope_built Let_def split_def)
  have 5: "sent (connectDevice remote (Some cb) cameraId pkg uid) =
     (CONNECT_DEVICE, envelope [StrongBinder (Some cb), Int32 cameraId, String16 pkg, Int32 uid])"
    by (simp add: connectDevice_def asBinder_same envelope_built Let_def split_def)
  have 6: "sent (addListener remote (Some l)) = (ADD_LISTENER, envelope [StrongBinder (Some l)])"
    by (simp add: addListener_def asBinder_same envelope_built Let_def split_def)
  have 7: "sent (removeListener remote (Some l)) = (REMOVE_LISTENER, envelope [StrongBinder (Some l)])"
    by (simp add: removeListener_def asBinder_same envelope_built Let_def split_def)
  from 1 2 3 4 5 6 7 show ?thesis by blast
qed

section \<open>A null result of connect\<close>




end
